theory Spec2Isabelle
  imports Complex_Main "HOL-Library.AList" "HOL-Library.Char_ord" "HOL-Library.List_Lexorder"
    "HOL-Library.Product_Lexorder"
begin

section \<open>Progress computation of App\_readonly.py\<close>

text \<open>
  The calculation core of the dashboard: \<open>ensure_columns\<close>, \<open>recompute_progress\<close>,
  \<open>step_advancement\<close>, \<open>phase_advancement\<close> and \<open>assembly_table\<close>, with the
  module constants \<open>STEPS_ORDER\<close>, \<open>STEP_RANK\<close> and \<open>PROGRESS_MAP\<close>.

  Numbers: the masses and percentages are Python floats in the source. They are modelled
  as exact reals, so rounding, infinities and NaN arithmetic are outside the model; the
  one place where the source itself produces and removes NaN (a failed lookup or parse
  followed by \<open>fillna\<close>) is modelled with \<open>option\<close>.

  Strings: a Python \<open>str\<close> is modelled as the list of the bytes of its UTF-8 encoding
  (the source file is declared \<open>utf-8\<close>). Bytewise lexicographic order on UTF-8 is the
  code point order Python's \<open>sorted\<close> uses.
\<close>

subsection \<open>Module constants\<close>

definition Preparation :: string where
  "Preparation = ''Pr'' @ [CHR 0xC3, CHR 0xA9] @ ''paration''"

definition Assemblage :: string where
  "Assemblage = ''Assemblage''"

definition Traitement_de_surface :: string where
  "Traitement_de_surface = ''Traitement de surface''"

definition Finalisation :: string where
  "Finalisation = ''Finalisation''"

definition STEPS_ORDER :: "string list" where
  "STEPS_ORDER = [Preparation, Assemblage, Traitement_de_surface, Finalisation]"

text \<open>
  A Python dict built from a sequence of key/value pairs: a later pair with the same key
  overwrites an earlier one.
\<close>

definition dict_of :: "('k \<times> 'v) list \<Rightarrow> ('k \<rightharpoonup> 'v)" where
  "dict_of kvs = fold (\<lambda>(k, v) m. m(k \<mapsto> v)) kvs Map.empty"

text \<open>\<^verbatim>\<open>STEP_RANK = {s: i for i, s in enumerate(STEPS_ORDER)}\<close>, as its items in
  insertion order and as the lookup.\<close>

definition STEP_RANK_items :: "(string \<times> int) list" where
  "STEP_RANK_items = map (\<lambda>(i, s). (s, int i)) (enumerate 0 STEPS_ORDER)"

definition STEP_RANK :: "string \<rightharpoonup> int" where
  "STEP_RANK = dict_of STEP_RANK_items"

text \<open>\<^verbatim>\<open>STEP_RANK.get(s, d)\<close>\<close>

definition STEP_RANK_get :: "string \<Rightarrow> int \<Rightarrow> int" where
  "STEP_RANK_get s d = (case STEP_RANK s of Some i \<Rightarrow> i | None \<Rightarrow> d)"

definition PROGRESS_MAP :: "string \<rightharpoonup> real" where
  "PROGRESS_MAP = dict_of
     [(Preparation, 0.25),
      (Assemblage, 0.60),
      (Traitement_de_surface, 0.85),
      (Finalisation, 1.00),
      (''None'', 0.00)]"

subsection \<open>Tables of records\<close>

text \<open>
  A validated table is a list of rows, in index order. The typed fields follow the record
  of the specification's data model: \<open>PHASE\<close>, \<open>ASSEMBLY NO.\<close> and \<open>PART NO.\<close> are
  strings, \<open>TOT MASS (Kg)\<close> is a number of either sign (what \<open>ensure_columns\<close> leaves
  there), \<open>Etape\<close> is a string, and any string at all: the source never validates it. A
  step cell that is no string (a blank cell of the sheet) is a key of neither table and
  so behaves as an unrecognised string does. A missing assembly number, which
  \<open>groupby\<close> would drop, is outside this record type.
\<close>

record row =
  PHASE :: string
  ASSEMBLY_NO :: string
  PART_NO :: string
  TOT_MASS :: real
  Etape :: string
  RowProgress :: real
  CompletedMass_Row :: real

datatype error = KeyError string | Stop string

subsection \<open>recompute\_progress\<close>

text \<open>\<^verbatim>\<open>Series.map(d)\<close> gives NaN (here \<open>None\<close>) where the key is missing;
  \<^verbatim>\<open>fillna(v)\<close> replaces it.\<close>

definition fillna :: "'a \<Rightarrow> 'a option \<Rightarrow> 'a" where
  "fillna v x = (case x of None \<Rightarrow> v | Some y \<Rightarrow> y)"

definition recompute_row :: "row \<Rightarrow> row" where
  "recompute_row r =
     (let p = fillna 0.0 (PROGRESS_MAP (Etape r))
      in r\<lparr>RowProgress := p, CompletedMass_Row := TOT_MASS r * p\<rparr>)"

definition recompute_progress :: "row list \<Rightarrow> row list" where
  "recompute_progress df = map recompute_row df"

subsection \<open>step\_advancement\<close>

record step_row =
  step_Etape :: string
  step_CompletedMass :: real
  step_Avancement :: real

text \<open>\<^verbatim>\<open>df[col].sum()\<close>, for the mass column and for the completed-mass column; the sum
  of an empty column is 0. These are exact sums: the order in which pandas adds the
  doubles and the rounding of each addition are not modelled, so nothing that depends on
  them (how the sum of a part of a column compares with the sum of the whole, or whether
  sums taken group by group add up to the sum taken at once) is stated of the program.\<close>

definition sum_TOT_MASS :: "row list \<Rightarrow> real" where
  "sum_TOT_MASS df = sum_list (map TOT_MASS df)"

definition sum_CompletedMass_Row :: "row list \<Rightarrow> real" where
  "sum_CompletedMass_Row df = sum_list (map CompletedMass_Row df)"

text \<open>The body of the loop over \<open>STEPS_ORDER\<close>. \<^verbatim>\<open>STEP_RANK[step]\<close> raises
  \<open>KeyError\<close> on a missing key; \<open>rows\<close> is the list the loop appends to.\<close>

fun step_loop :: "row list \<Rightarrow> real \<Rightarrow> string list \<Rightarrow> step_row list \<Rightarrow> error + step_row list" where
  "step_loop df total_mass [] rows = Inr rows"
| "step_loop df total_mass (step # steps) rows =
     (case STEP_RANK step of
        None \<Rightarrow> Inl (KeyError step)
      | Some k \<Rightarrow>
          (let treated_mass = sum_TOT_MASS (filter (\<lambda>r. STEP_RANK_get (Etape r) (- 1) \<ge> k) df);
               pct = (if total_mass > 0 then (treated_mass / total_mass) * 100 else 0.0)
           in step_loop df total_mass steps
                (rows @ [\<lparr>step_Etape = step, step_CompletedMass = treated_mass,
                          step_Avancement = pct\<rparr>])))"

definition step_advancement :: "row list \<Rightarrow> error + step_row list" where
  "step_advancement df = step_loop df (sum_TOT_MASS df) STEPS_ORDER []"

subsection \<open>phase\_advancement\<close>

record phase_row =
  phase_PHASE :: string
  phase_CompletedMass :: real
  phase_Avancement :: real

text \<open>\<^verbatim>\<open>Series.unique()\<close>: the distinct values, in order of first appearance.\<close>

definition unique :: "'a list \<Rightarrow> 'a list" where
  "unique xs = rev (remdups (rev xs))"

fun phase_loop :: "row list \<Rightarrow> string list \<Rightarrow> phase_row list \<Rightarrow> phase_row list" where
  "phase_loop df [] rows = rows"
| "phase_loop df (phase # phases) rows =
     (let phase_total_mass = sum_TOT_MASS (filter (\<lambda>r. PHASE r = phase) df);
          treated_mass = sum_CompletedMass_Row (filter (\<lambda>r. PHASE r = phase) df);
          pct = (if phase_total_mass > 0 then (treated_mass / phase_total_mass) * 100 else 0.0)
      in phase_loop df phases
           (rows @ [\<lparr>phase_PHASE = phase, phase_CompletedMass = treated_mass,
                     phase_Avancement = pct\<rparr>]))"

definition phase_advancement :: "row list \<Rightarrow> phase_row list" where
  "phase_advancement df = phase_loop df (sort (unique (map PHASE df))) []"

subsection \<open>assembly\_table\<close>

record asm_row =
  asm_PHASE :: string
  asm_ASSEMBLY_NO :: string
  AssemblyMass :: real
  EtapeAsm :: string

text \<open>The aggregation function of \<open>EtapeRank\<close>:
  \<^verbatim>\<open>lambda s: min([STEP_RANK.get(x, -1) for x in s]) if len(s) else -1\<close>.\<close>

definition EtapeRank_agg :: "string list \<Rightarrow> int" where
  "EtapeRank_agg s =
     (if length s \<noteq> 0 then min_list (map (\<lambda>x. STEP_RANK_get x (- 1)) s) else - 1)"

text \<open>\<^verbatim>\<open>inv_rank = {v: k for k, v in STEP_RANK.items()}\<close>\<close>

definition inv_rank :: "int \<rightharpoonup> string" where
  "inv_rank = dict_of (map (\<lambda>(k, v). (v, k)) STEP_RANK_items)"

text \<open>\<^verbatim>\<open>groupby(["PHASE", "ASSEMBLY NO."])\<close> with pandas' defaults: one group per distinct
  key, the groups in ascending key order, the rows of a group in index order.\<close>

definition group_keys :: "row list \<Rightarrow> (string \<times> string) list" where
  "group_keys df = sort (unique (map (\<lambda>r. (PHASE r, ASSEMBLY_NO r)) df))"

definition group_rows :: "row list \<Rightarrow> string \<times> string \<Rightarrow> row list" where
  "group_rows df key = filter (\<lambda>r. (PHASE r, ASSEMBLY_NO r) = key) df"

definition assembly_row :: "row list \<Rightarrow> string \<times> string \<Rightarrow> asm_row" where
  "assembly_row df key =
     (let g = group_rows df key;
          mass = sum_TOT_MASS g;
          EtapeRank = EtapeRank_agg (map Etape g)
      in \<lparr>asm_PHASE = fst key, asm_ASSEMBLY_NO = snd key, AssemblyMass = mass,
          EtapeAsm = fillna ''None'' (inv_rank EtapeRank)\<rparr>)"

definition assembly_table :: "row list \<Rightarrow> asm_row list" where
  "assembly_table df = map (assembly_row df) (group_keys df)"

subsection \<open>A sample table\<close>

text \<open>Two phases, two assemblies, steps out of index order, one row with the sentinel
  step and one with a step string that is in no table.\<close>

definition example_table :: "row list" where
  "example_table =
     [\<lparr>PHASE = ''B'', ASSEMBLY_NO = ''B-01'', PART_NO = ''p1'', TOT_MASS = 40,
       Etape = Assemblage, RowProgress = 0, CompletedMass_Row = 0\<rparr>,
      \<lparr>PHASE = ''A'', ASSEMBLY_NO = ''A-01'', PART_NO = ''p1'', TOT_MASS = 100,
       Etape = Preparation, RowProgress = 0, CompletedMass_Row = 0\<rparr>,
      \<lparr>PHASE = ''A'', ASSEMBLY_NO = ''A-01'', PART_NO = ''p2'', TOT_MASS = 100,
       Etape = Finalisation, RowProgress = 0, CompletedMass_Row = 0\<rparr>,
      \<lparr>PHASE = ''B'', ASSEMBLY_NO = ''B-01'', PART_NO = ''p2'', TOT_MASS = 10,
       Etape = ''None'', RowProgress = 0, CompletedMass_Row = 0\<rparr>,
      \<lparr>PHASE = ''B'', ASSEMBLY_NO = ''B-02'', PART_NO = ''p1'', TOT_MASS = 50,
       Etape = ''Peinture'', RowProgress = 0, CompletedMass_Row = 0\<rparr>]"

text \<open>A table with a negative mass, which \<open>ensure_columns\<close> lets through as it does any
  number, and a negative total; the derived fields are the recomputed ones.\<close>

definition negative_table :: "row list" where
  "negative_table =
     [\<lparr>PHASE = ''A'', ASSEMBLY_NO = ''A-01'', PART_NO = ''p1'', TOT_MASS = - 100,
       Etape = Preparation, RowProgress = 0.25, CompletedMass_Row = - 25\<rparr>,
      \<lparr>PHASE = ''A'', ASSEMBLY_NO = ''A-01'', PART_NO = ''p2'', TOT_MASS = 50,
       Etape = Finalisation, RowProgress = 1, CompletedMass_Row = 50\<rparr>]"

subsection \<open>ensure\_columns\<close>

text \<open>
  The table \<open>ensure_columns\<close> receives is the raw sheet: any set of columns, any cell
  values. A cell is a string, a number or a missing value (NaN or None). A frame is its
  index length and its columns in order, each column a list of cells.
\<close>

datatype cell = CStr string | CNum real | CNull

record dataframe =
  index_len :: nat
  cols :: "(string \<times> cell list) list"

text \<open>\<^verbatim>\<open>c in df.columns\<close>, \<^verbatim>\<open>df[c]\<close> (\<open>None\<close> where pandas raises \<open>KeyError\<close>),
  \<^verbatim>\<open>df[c] = series\<close> (an existing column is replaced in its place, a new one is appended)
  and \<^verbatim>\<open>df[c] = scalar\<close> (the scalar in every row).\<close>

definition has_column :: "dataframe \<Rightarrow> string \<Rightarrow> bool" where
  "has_column df c = (c \<in> set (map fst (cols df)))"

definition getitem :: "dataframe \<Rightarrow> string \<Rightarrow> cell list option" where
  "getitem df c = map_of (cols df) c"

definition setitem :: "dataframe \<Rightarrow> string \<Rightarrow> cell list \<Rightarrow> dataframe" where
  "setitem df c v = df\<lparr>cols := AList.update c v (cols df)\<rparr>"

definition setitem_scalar :: "dataframe \<Rightarrow> string \<Rightarrow> cell \<Rightarrow> dataframe" where
  "setitem_scalar df c x = setitem df c (replicate (index_len df) x)"

text \<open>\<^verbatim>\<open>astype(str)\<close> keeps a string and replaces any other cell by its Python text;
  that text (\<open>py_str\<close>) is a parameter. \<^verbatim>\<open>pd.to_numeric(errors="coerce")\<close> keeps a
  number, parses a string (\<open>parse\<close>, a parameter: \<open>None\<close> when the string is no number)
  and gives NaN, here \<open>None\<close>, for whatever it cannot convert.\<close>

definition astype_str :: "(cell \<Rightarrow> string) \<Rightarrow> cell \<Rightarrow> cell" where
  "astype_str py_str c = (case c of CStr s \<Rightarrow> CStr s | _ \<Rightarrow> CStr (py_str c))"

definition to_numeric :: "(string \<Rightarrow> real option) \<Rightarrow> cell \<Rightarrow> real option" where
  "to_numeric parse c = (case c of CNum x \<Rightarrow> Some x | CStr s \<Rightarrow> parse s | CNull \<Rightarrow> None)"

definition required :: "string list" where
  "required = [''PHASE'', ''ASSEMBLY NO.'', ''PART NO.'', ''TOT MASS (Kg)'']"

text \<open>The text \<open>st.error\<close> shows before \<open>st.stop()\<close> halts the script: a warning sign,
  \<open>Colonne manquante dans Excel :\<close> and the column name between single quotes.\<close>

definition missing_message :: "string \<Rightarrow> string" where
  "missing_message c =
     [CHR 0xE2, CHR 0x9A, CHR 0xA0, CHR 0xEF, CHR 0xB8, CHR 0x8F]
     @ '' Colonne manquante dans Excel : '' @ [CHR 0x27] @ c @ [CHR 0x27]"

fun check_required :: "dataframe \<Rightarrow> string list \<Rightarrow> error option" where
  "check_required df [] = None"
| "check_required df (c # cs) =
     (if \<not> has_column df c then Some (Stop (missing_message c)) else check_required df cs)"

text \<open>The body of \<open>ensure_columns\<close> on the frame its argument refers to: the error raised,
  if any, and the frame as the statements executed so far have left it.\<close>

definition ensure_columns_frame ::
  "(cell \<Rightarrow> string) \<Rightarrow> (string \<Rightarrow> real option) \<Rightarrow> dataframe \<Rightarrow> error option \<times> dataframe" where
  "ensure_columns_frame py_str parse df =
     (case check_required df required of
        Some e \<Rightarrow> (Some e, df)
      | None \<Rightarrow>
         (case getitem df ''PHASE'' of
            None \<Rightarrow> (Some (KeyError ''PHASE''), df)
          | Some phase \<Rightarrow>
             (let df1 = setitem df ''PHASE'' (map (astype_str py_str) phase)
              in case getitem df1 ''TOT MASS (Kg)'' of
                   None \<Rightarrow> (Some (KeyError ''TOT MASS (Kg)''), df1)
                 | Some mass \<Rightarrow>
                    (let df2 = setitem df1 ''TOT MASS (Kg)''
                                 (map (\<lambda>c. CNum (fillna 0.0 (to_numeric parse c))) mass);
                         df3 = (if \<not> has_column df2 ''Etape''
                                then setitem_scalar df2 ''Etape'' (CStr ''None'') else df2);
                         df4 = (if \<not> has_column df3 ''RowProgress%''
                                then setitem_scalar df3 ''RowProgress%'' (CNum 0.0) else df3);
                         df5 = (if \<not> has_column df4 ''CompletedMass_Row''
                                then setitem_scalar df4 ''CompletedMass_Row'' (CNum 0.0) else df4)
                     in (None, df5)))))"

text \<open>
  Python passes the table by reference and the assignments \<^verbatim>\<open>df[c] = ...\<close> write into
  the object the caller holds. The store maps references to frames; \<open>ensure_columns\<close>
  takes the reference of its argument and returns the raised error or the reference it
  returns (\<^verbatim>\<open>return df\<close>: the argument's own), with the store after the call.
\<close>

type_synonym ref = nat

type_synonym store = "ref \<Rightarrow> dataframe"

definition ensure_columns ::
  "(cell \<Rightarrow> string) \<Rightarrow> (string \<Rightarrow> real option) \<Rightarrow> ref \<Rightarrow> store \<Rightarrow> (error + ref) \<times> store" where
  "ensure_columns py_str parse df \<sigma> =
     (case ensure_columns_frame py_str parse (\<sigma> df) of
        (Some e, frame) \<Rightarrow> (Inl e, \<sigma>(df := frame))
      | (None, frame) \<Rightarrow> (Inr df, \<sigma>(df := frame)))"

text \<open>A raw sheet with the four required columns and no application column, one with the
  mass column missing, and a store holding them.\<close>

definition raw_sheet :: dataframe where
  "raw_sheet =
     \<lparr>index_len = 3,
      cols = [(''PHASE'', [CStr ''A'', CNum 2, CNull]),
              (''ASSEMBLY NO.'', [CStr ''A-01'', CStr ''A-01'', CStr ''A-02'']),
              (''PART NO.'', [CStr ''p1'', CStr ''p2'', CStr ''p1'']),
              (''TOT MASS (Kg)'', [CNum 12.5, CStr ''abc'', CNull]),
              (''REMARKS'', [CNull, CStr ''ok'', CNull])]\<rparr>"

definition bad_sheet :: dataframe where
  "bad_sheet =
     \<lparr>index_len = 1,
      cols = [(''PHASE'', [CStr ''A'']),
              (''ASSEMBLY NO.'', [CStr ''A-01'']),
              (''PART NO.'', [CStr ''p1''])]\<rparr>"

definition sample_store :: store where
  "sample_store = (\<lambda>_. \<lparr>index_len = 0, cols = []\<rparr>)(0 := raw_sheet, 1 := bad_sheet)"





text \<open>The frame the argument refers to after a call of \<open>ensure_columns\<close>.\<close>

definition frame_after :: "(cell \<Rightarrow> string) \<Rightarrow> (string \<Rightarrow> real option) \<Rightarrow> dataframe \<Rightarrow> dataframe" where
  "frame_after py_str parse df = snd (ensure_columns_frame py_str parse df)"

section \<open>The specification's words\<close>

text \<open>The rank of a step as the specification describes it: the position in the fixed
  order, and every other string (the sentinel included) below all real steps.\<close>

definition spec_rank :: "string \<Rightarrow> int" where
  "spec_rank s =
     (if s = Preparation then 0
      else if s = Assemblage then 1
      else if s = Traitement_de_surface then 2
      else if s = Finalisation then 3
      else - 1)"

text \<open>The step aggregation as the specification words it: one row per defined step in the
  fixed order, the treated mass of a step being the mass of the records whose rank is at
  least the step's, and the percentage 0 when the total mass is 0.\<close>

definition spec_treated_mass :: "row list \<Rightarrow> string \<Rightarrow> real" where
  "spec_treated_mass df S =
     sum_list (map TOT_MASS (filter (\<lambda>r. spec_rank (Etape r) \<ge> spec_rank S) df))"

definition spec_aggregate_by_step :: "row list \<Rightarrow> step_row list" where
  "spec_aggregate_by_step df =
     map (\<lambda>S. \<lparr>step_Etape = S,
               step_CompletedMass = spec_treated_mass df S,
               step_Avancement =
                 (if sum_list (map TOT_MASS df) = 0 then 0
                  else spec_treated_mass df S / sum_list (map TOT_MASS df) * 100)\<rparr>)
       [Preparation, Assemblage, Traitement_de_surface, Finalisation]"

text \<open>The phase aggregation as the specification words it: one entry per distinct phase
  present in the data, ascending; the treated mass of a phase is the sum of the completed
  masses of its rows; the percentage is 0 when the phase's total mass is 0.\<close>

definition spec_aggregate_by_phase :: "row list \<Rightarrow> phase_row list" where
  "spec_aggregate_by_phase df =
     map (\<lambda>P. \<lparr>phase_PHASE = P,
               phase_CompletedMass = sum_list (map CompletedMass_Row (filter (\<lambda>r. PHASE r = P) df)),
               phase_Avancement =
                 (if sum_list (map TOT_MASS (filter (\<lambda>r. PHASE r = P) df)) = 0 then 0
                  else sum_list (map CompletedMass_Row (filter (\<lambda>r. PHASE r = P) df))
                       / sum_list (map TOT_MASS (filter (\<lambda>r. PHASE r = P) df)) * 100)\<rparr>)
       (sorted_list_of_set (PHASE ` set df))"

text \<open>The assembly rollup as the specification words it: one row per (phase, assembly)
  pair; the assembly mass is the sum of the member masses; the assembly step is the step
  whose rank is the minimum rank among the member rows, rank \<open>- 1\<close> mapping to the sentinel.\<close>

definition spec_step_of_rank :: "int \<Rightarrow> string" where
  "spec_step_of_rank k =
     (if k = 0 then Preparation
      else if k = 1 then Assemblage
      else if k = 2 then Traitement_de_surface
      else if k = 3 then Finalisation
      else ''None'')"

definition spec_members :: "row list \<Rightarrow> string \<times> string \<Rightarrow> row list" where
  "spec_members df key = filter (\<lambda>r. PHASE r = fst key \<and> ASSEMBLY_NO r = snd key) df"

definition spec_rollup_by_assembly :: "row list \<Rightarrow> asm_row list" where
  "spec_rollup_by_assembly df =
     map (\<lambda>key. \<lparr>asm_PHASE = fst key, asm_ASSEMBLY_NO = snd key,
                 AssemblyMass = sum_list (map TOT_MASS (spec_members df key)),
                 EtapeAsm = spec_step_of_rank (Min (set (map (\<lambda>r. spec_rank (Etape r)) (spec_members df key))))\<rparr>)
       (sorted_list_of_set ((\<lambda>r. (PHASE r, ASSEMBLY_NO r)) ` set df))"

section \<open>Lemmas\<close>

subsection \<open>The constant tables, evaluated\<close>

lemmas step_names = Preparation_def Assemblage_def Traitement_de_surface_def Finalisation_def

lemma STEP_RANK_items_eq:
  "STEP_RANK_items = [(Preparation, 0), (Assemblage, 1), (Traitement_de_surface, 2), (Finalisation, 3)]"
  by (simp add: STEP_RANK_items_def STEPS_ORDER_def enumerate_eq_zip upt_rec)

lemma STEP_RANK_eq:
  "STEP_RANK s =
     (if s = Finalisation then Some 3
      else if s = Traitement_de_surface then Some 2
      else if s = Assemblage then Some 1
      else if s = Preparation then Some 0
      else None)"
  by (simp add: STEP_RANK_def STEP_RANK_items_eq dict_of_def)

lemma step_names_distinct:
  "distinct [Preparation, Assemblage, Traitement_de_surface, Finalisation, ''None'']"
  by (simp add: step_names)

lemma STEP_RANK_get_spec: "STEP_RANK_get s (- 1) = spec_rank s"
  using step_names_distinct by (auto simp add: STEP_RANK_get_def STEP_RANK_eq spec_rank_def)

lemma PROGRESS_MAP_eq:
  "PROGRESS_MAP s =
     (if s = ''None'' then Some 0
      else if s = Finalisation then Some 1
      else if s = Traitement_de_surface then Some 0.85
      else if s = Assemblage then Some 0.6
      else if s = Preparation then Some 0.25
      else None)"
  by (simp add: PROGRESS_MAP_def dict_of_def)

lemma inv_rank_eq:
  "inv_rank i =
     (if i = 3 then Some Finalisation
      else if i = 2 then Some Traitement_de_surface
      else if i = 1 then Some Assemblage
      else if i = 0 then Some Preparation
      else None)"
  by (simp add: inv_rank_def STEP_RANK_items_eq dict_of_def)

lemma weight_bounds: "0 \<le> fillna 0 (PROGRESS_MAP s) \<and> fillna 0 (PROGRESS_MAP s) \<le> 1"
  by (simp add: PROGRESS_MAP_eq fillna_def)

subsection \<open>step\_advancement\<close>

lemma STEP_RANK_step: "step \<in> set STEPS_ORDER \<Longrightarrow> STEP_RANK step = Some (spec_rank step)"
  using step_names_distinct by (auto simp add: STEPS_ORDER_def STEP_RANK_eq spec_rank_def)

lemma step_loop_eq:
  "set steps \<subseteq> set STEPS_ORDER \<Longrightarrow>
   step_loop df t steps rows =
     Inr (rows @ map (\<lambda>S. \<lparr>step_Etape = S,
               step_CompletedMass = spec_treated_mass df S,
               step_Avancement =
                 (if t > 0 then spec_treated_mass df S / t * 100 else 0)\<rparr>) steps)"
proof (induction steps arbitrary: rows)
  case Nil
  show ?case by simp
next
  case (Cons step steps)
  from Cons.prems have k: "STEP_RANK step = Some (spec_rank step)" and sub: "set steps \<subseteq> set STEPS_ORDER"
    by (simp_all add: STEP_RANK_step)
  show ?case
    by (simp add: k Cons.IH [OF sub] Let_def STEP_RANK_get_spec spec_treated_mass_def sum_TOT_MASS_def)
qed

lemma step_advancement_eq:
  "step_advancement df =
     Inr (map (\<lambda>S. \<lparr>step_Etape = S,
               step_CompletedMass = spec_treated_mass df S,
               step_Avancement =
                 (if sum_TOT_MASS df > 0 then spec_treated_mass df S / sum_TOT_MASS df * 100 else 0)\<rparr>)
          STEPS_ORDER)"
  using step_loop_eq [of STEPS_ORDER df "sum_TOT_MASS df" "[]"]
  by (simp add: step_advancement_def)

lemma spec_rank_steps:
  "spec_rank Preparation = 0" "spec_rank Assemblage = 1"
  "spec_rank Traitement_de_surface = 2" "spec_rank Finalisation = 3"
  by (simp_all add: spec_rank_def step_names)

subsection \<open>phase\_advancement\<close>

lemma sort_unique: "sort (unique xs) = sorted_list_of_set (set xs)"
proof -
  have "sort (unique xs) = sort (remdups (unique xs))"
    by (simp add: unique_def distinct_remdups_id)
  also have "\<dots> = sorted_list_of_set (set (unique xs))"
    by (simp add: sorted_list_of_set_sort_remdups)
  also have "set (unique xs) = set xs"
    by (simp add: unique_def)
  finally show ?thesis .
qed

lemma phase_loop_eq:
  "phase_loop df phases rows =
     rows @ map (\<lambda>P. \<lparr>phase_PHASE = P,
               phase_CompletedMass = sum_CompletedMass_Row (filter (\<lambda>r. PHASE r = P) df),
               phase_Avancement =
                 (if sum_TOT_MASS (filter (\<lambda>r. PHASE r = P) df) > 0
                  then sum_CompletedMass_Row (filter (\<lambda>r. PHASE r = P) df)
                       / sum_TOT_MASS (filter (\<lambda>r. PHASE r = P) df) * 100
                  else 0)\<rparr>) phases"
  by (induction phases arbitrary: rows) (simp_all add: Let_def)

lemma phase_advancement_eq:
  "phase_advancement df =
     map (\<lambda>P. \<lparr>phase_PHASE = P,
               phase_CompletedMass = sum_CompletedMass_Row (filter (\<lambda>r. PHASE r = P) df),
               phase_Avancement =
                 (if sum_TOT_MASS (filter (\<lambda>r. PHASE r = P) df) > 0
                  then sum_CompletedMass_Row (filter (\<lambda>r. PHASE r = P) df)
                       / sum_TOT_MASS (filter (\<lambda>r. PHASE r = P) df) * 100
                  else 0)\<rparr>) (sorted_list_of_set (PHASE ` set df))"
  by (simp add: phase_advancement_def phase_loop_eq sort_unique)

subsection \<open>assembly\_table\<close>

lemma inv_rank_spec: "fillna ''None'' (inv_rank k) = spec_step_of_rank k"
  by (simp add: inv_rank_eq fillna_def spec_step_of_rank_def)

lemma EtapeRank_agg_Min:
  "s \<noteq> [] \<Longrightarrow> EtapeRank_agg s = Min (set (map spec_rank s))"
  by (simp add: EtapeRank_agg_def STEP_RANK_get_spec min_list_Min)

lemma group_rows_spec: "group_rows df key = spec_members df key"
  by (cases key) (simp add: group_rows_def spec_members_def)

lemma group_keys_eq:
  "group_keys df = sorted_list_of_set ((\<lambda>r. (PHASE r, ASSEMBLY_NO r)) ` set df)"
  by (simp add: group_keys_def sort_unique)

lemma group_nonempty:
  "key \<in> (\<lambda>r. (PHASE r, ASSEMBLY_NO r)) ` set df \<Longrightarrow> spec_members df key \<noteq> []"
  by (auto simp add: spec_members_def filter_empty_conv)

lemma assembly_row_spec:
  assumes "key \<in> (\<lambda>r. (PHASE r, ASSEMBLY_NO r)) ` set df"
  shows "assembly_row df key =
     \<lparr>asm_PHASE = fst key, asm_ASSEMBLY_NO = snd key,
      AssemblyMass = sum_list (map TOT_MASS (spec_members df key)),
      EtapeAsm = spec_step_of_rank (Min (set (map (\<lambda>r. spec_rank (Etape r)) (spec_members df key))))\<rparr>"
proof -
  have ne: "map Etape (spec_members df key) \<noteq> []"
    using group_nonempty [OF assms] by simp
  show ?thesis
    by (simp add: assembly_row_def Let_def group_rows_spec sum_TOT_MASS_def inv_rank_spec
        EtapeRank_agg_Min [OF ne] comp_def)
qed

lemma assembly_table_eq: "assembly_table df = spec_rollup_by_assembly df"
  unfolding assembly_table_def spec_rollup_by_assembly_def group_keys_eq
  by (rule map_cong [OF refl]) (simp add: assembly_row_spec)

lemma assembly_example:
  "assembly_table example_table =
     [\<lparr>asm_PHASE = ''A'', asm_ASSEMBLY_NO = ''A-01'', AssemblyMass = 200, EtapeAsm = Preparation\<rparr>,
      \<lparr>asm_PHASE = ''B'', asm_ASSEMBLY_NO = ''B-01'', AssemblyMass = 50, EtapeAsm = ''None''\<rparr>,
      \<lparr>asm_PHASE = ''B'', asm_ASSEMBLY_NO = ''B-02'', AssemblyMass = 50, EtapeAsm = ''None''\<rparr>]"
    by (simp add: assembly_table_def group_keys_def unique_def assembly_row_def group_rows_def
        Let_def sum_TOT_MASS_def EtapeRank_agg_def STEP_RANK_get_spec spec_rank_def
        inv_rank_eq fillna_def example_table_def step_names)

subsection \<open>Rows whose step is not a defined step\<close>

lemma spec_rank_undefined: "s \<notin> set STEPS_ORDER \<Longrightarrow> spec_rank s = - 1"
  by (simp add: STEPS_ORDER_def spec_rank_def)

lemma spec_rank_defined: "S \<in> set STEPS_ORDER \<Longrightarrow> 0 \<le> spec_rank S"
  by (auto simp add: STEPS_ORDER_def spec_rank_steps)

lemma spec_rank_ge: "- 1 \<le> spec_rank s"
  by (simp add: spec_rank_def)

lemma spec_treated_mass_skip:
  assumes "Etape r \<notin> set STEPS_ORDER" and "S \<in> set STEPS_ORDER"
  shows "spec_treated_mass (xs @ r # ys) S = spec_treated_mass (xs @ ys) S"
  using spec_rank_undefined [OF assms(1)] spec_rank_defined [OF assms(2)]
  by (simp add: spec_treated_mass_def)

lemma Min_undefined_member:
  assumes "r \<in> set g" and "Etape r \<notin> set STEPS_ORDER"
  shows "Min (set (map (\<lambda>r. spec_rank (Etape r)) g)) = - 1"
proof (rule antisym)
  have "spec_rank (Etape r) \<in> set (map (\<lambda>r. spec_rank (Etape r)) g)"
    using assms(1) by simp
  then have "Min (set (map (\<lambda>r. spec_rank (Etape r)) g)) \<le> spec_rank (Etape r)"
    by (intro Min_le) simp_all
  then show "Min (set (map (\<lambda>r. spec_rank (Etape r)) g)) \<le> - 1"
    by (simp add: spec_rank_undefined [OF assms(2)])
next
  have "set (map (\<lambda>r. spec_rank (Etape r)) g) \<noteq> {}"
    using assms(1) by auto
  then show "- 1 \<le> Min (set (map (\<lambda>r. spec_rank (Etape r)) g))"
    by (simp add: spec_rank_ge)
qed

subsection \<open>ensure\_columns\<close>

lemma check_required_None:
  "(check_required df cs = None) = (\<forall>c\<in>set cs. has_column df c)"
  by (induction cs) auto


lemma has_column_getitem: "has_column df c = (getitem df c \<noteq> None)"
  by (simp add: has_column_def getitem_def map_of_eq_None_iff)

lemma getitem_setitem:
  "getitem (setitem df c v) c' = (if c' = c then Some v else getitem df c')"
  by (simp add: getitem_def setitem_def update_conv')

lemma has_column_setitem:
  "has_column (setitem df c v) c' = (c' = c \<or> has_column df c')"
  by (auto simp add: has_column_getitem getitem_setitem)

lemma index_len_setitem: "index_len (setitem df c v) = index_len df"
  by (simp add: setitem_def)

lemma required_present:
  "(\<forall>c\<in>set required. has_column df c) =
     (has_column df ''PHASE'' \<and> has_column df ''ASSEMBLY NO.''
      \<and> has_column df ''PART NO.'' \<and> has_column df ''TOT MASS (Kg)'')"
  by (simp add: required_def)

lemma ensure_columns_frame_ok:
  assumes "\<forall>c\<in>set required. has_column df c"
    and ph: "getitem df ''PHASE'' = Some phase" and ms: "getitem df ''TOT MASS (Kg)'' = Some mass"
  shows "ensure_columns_frame py_str parse df = (None, frame_after py_str parse df)"
    and "index_len (frame_after py_str parse df) = index_len df"
    and "getitem (frame_after py_str parse df) ''PHASE'' = Some (map (astype_str py_str) phase)"
    and "getitem (frame_after py_str parse df) ''TOT MASS (Kg)''
          = Some (map (\<lambda>c. CNum (fillna 0 (to_numeric parse c))) mass)"
    and "getitem (frame_after py_str parse df) ''Etape'' =
         (if has_column df ''Etape'' then getitem df ''Etape''
          else Some (replicate (index_len df) (CStr ''None'')))"
    and "getitem (frame_after py_str parse df) ''RowProgress%'' =
         (if has_column df ''RowProgress%'' then getitem df ''RowProgress%''
          else Some (replicate (index_len df) (CNum 0)))"
    and "getitem (frame_after py_str parse df) ''CompletedMass_Row'' =
         (if has_column df ''CompletedMass_Row'' then getitem df ''CompletedMass_Row''
          else Some (replicate (index_len df) (CNum 0)))"
    and "c \<notin> {''PHASE'', ''TOT MASS (Kg)'', ''Etape'', ''RowProgress%'', ''CompletedMass_Row''}
           \<Longrightarrow> getitem (frame_after py_str parse df) c = getitem df c"
proof -
  from assms(1) have chk: "check_required df required = None"
    by (simp add: check_required_None)
  note defs = frame_after_def ensure_columns_frame_def chk ph ms Let_def getitem_setitem
    has_column_setitem setitem_scalar_def index_len_setitem
  show "ensure_columns_frame py_str parse df = (None, frame_after py_str parse df)"
    by (simp add: defs)
  show "index_len (frame_after py_str parse df) = index_len df"
    by (simp add: defs)
  show "getitem (frame_after py_str parse df) ''PHASE'' = Some (map (astype_str py_str) phase)"
    by (simp add: defs)
  show "getitem (frame_after py_str parse df) ''TOT MASS (Kg)''
          = Some (map (\<lambda>c. CNum (fillna 0 (to_numeric parse c))) mass)"
    by (simp add: defs)
  show "getitem (frame_after py_str parse df) ''Etape'' =
         (if has_column df ''Etape'' then getitem df ''Etape''
          else Some (replicate (index_len df) (CStr ''None'')))"
    by (simp add: defs)
  show "getitem (frame_after py_str parse df) ''RowProgress%'' =
         (if has_column df ''RowProgress%'' then getitem df ''RowProgress%''
          else Some (replicate (index_len df) (CNum 0)))"
    by (simp add: defs)
  show "getitem (frame_after py_str parse df) ''CompletedMass_Row'' =
         (if has_column df ''CompletedMass_Row'' then getitem df ''CompletedMass_Row''
          else Some (replicate (index_len df) (CNum 0)))"
    by (simp add: defs)
  show "getitem (frame_after py_str parse df) c = getitem df c"
    if "c \<notin> {''PHASE'', ''TOT MASS (Kg)'', ''Etape'', ''RowProgress%'', ''CompletedMass_Row''}"
    using that by (simp add: defs)
qed

lemma required_columns_obtain:
  assumes "\<forall>c\<in>set required. has_column df c"
  obtains phase mass where "getitem df ''PHASE'' = Some phase"
    and "getitem df ''TOT MASS (Kg)'' = Some mass"
  using assms unfolding required_present by (auto simp add: has_column_getitem)


lemma sample_store_0: "sample_store 0 = raw_sheet"
  by (simp add: sample_store_def)

lemma sample_store_1: "sample_store 1 = bad_sheet" "sample_store (Suc 0) = bad_sheet"
  by (simp_all add: sample_store_def)

lemma raw_sheet_required: "\<forall>c\<in>set required. has_column raw_sheet c"
  by (simp add: required_def has_column_def raw_sheet_def)

lemma raw_sheet_columns:
  "getitem raw_sheet ''PHASE'' = Some [CStr ''A'', CNum 2, CNull]"
  "getitem raw_sheet ''TOT MASS (Kg)'' = Some [CNum 12.5, CStr ''abc'', CNull]"
  "\<not> has_column raw_sheet ''Etape''"
  "index_len raw_sheet = 3"
  by (simp_all add: getitem_def has_column_def raw_sheet_def)






lemma map_astype_str_all: "list_all (\<lambda>c. \<exists>s. c = CStr s) (map (astype_str py_str) phase)"
  by (induction phase) (simp_all add: astype_str_def split: cell.splits)

lemma map_to_numeric_all:
  "list_all (\<lambda>c. \<exists>x. c = CNum x) (map (\<lambda>c. CNum (fillna 0 (to_numeric parse c))) mass)"
  by (induction mass) simp_all

section \<open>Properties of the specification\<close>

subsection \<open>recompute\_progress\<close>

text \<open>
  Claim C5. For every table, \<open>recompute_progress\<close> sets the progress of each row to the
  \<open>PROGRESS_MAP\<close> entry of its step, and to 0 when the step is not a key of the table;
  that value lies between 0 and 1; the completed mass of each row is its mass times its
  progress; every other field of every row is kept, and so is the number of rows. The
  function has no failing branch: it returns a table for every step value.
\<close>

theorem recompute_progress_spec:
  "map RowProgress (recompute_progress df)
     = map (\<lambda>r. case PROGRESS_MAP (Etape r) of Some w \<Rightarrow> w | None \<Rightarrow> 0) df
   \<and> list_all (\<lambda>r. 0 \<le> RowProgress r \<and> RowProgress r \<le> 1) (recompute_progress df)
   \<and> map CompletedMass_Row (recompute_progress df)
     = map (\<lambda>r. TOT_MASS r * (case PROGRESS_MAP (Etape r) of Some w \<Rightarrow> w | None \<Rightarrow> 0)) df
   \<and> list_all2 (\<lambda>r' r. CompletedMass_Row r' = TOT_MASS r' * RowProgress r'
         \<and> r'\<lparr>RowProgress := RowProgress r, CompletedMass_Row := CompletedMass_Row r\<rparr> = r)
       (recompute_progress df) df"
proof (intro conjI)
  show "map RowProgress (recompute_progress df)
     = map (\<lambda>r. case PROGRESS_MAP (Etape r) of Some w \<Rightarrow> w | None \<Rightarrow> 0) df"
    by (simp add: recompute_progress_def recompute_row_def Let_def fillna_def split: option.splits)
  show "list_all (\<lambda>r. 0 \<le> RowProgress r \<and> RowProgress r \<le> 1) (recompute_progress df)"
    using weight_bounds by (simp add: recompute_progress_def recompute_row_def Let_def list_all_iff)
  show "map CompletedMass_Row (recompute_progress df)
     = map (\<lambda>r. TOT_MASS r * (case PROGRESS_MAP (Etape r) of Some w \<Rightarrow> w | None \<Rightarrow> 0)) df"
    by (simp add: recompute_progress_def recompute_row_def Let_def fillna_def split: option.splits)
  show "list_all2 (\<lambda>r' r. CompletedMass_Row r' = TOT_MASS r' * RowProgress r'
         \<and> r'\<lparr>RowProgress := RowProgress r, CompletedMass_Row := CompletedMass_Row r\<rparr> = r)
       (recompute_progress df) df"
    by (simp add: recompute_progress_def recompute_row_def Let_def list_all2_map1 list_all2_same)
qed

text \<open>
  Claim C6. \<open>recompute_progress\<close> is idempotent: applied to its own output it returns
  that output.
\<close>

theorem recompute_progress_idempotent:
  "recompute_progress (recompute_progress df) = recompute_progress df"
  by (simp add: recompute_progress_def recompute_row_def Let_def)

subsection \<open>step\_advancement\<close>

text \<open>
  Claim C1 as stated, with the percentage equal to treated mass over total mass times 100
  unless the total mass is 0, fails where the total mass is negative. On the table of
  - 100 kg at Preparation and 50 kg at Finalisation the total is - 50 kg; the source
  gives 0 percent at every step, the claim's formula 100 percent at Preparation and - 100
  percent at the three other steps.
\<close>

theorem step_advancement_negative_counterexample:
  "step_advancement negative_table
     = Inr [\<lparr>step_Etape = Preparation, step_CompletedMass = - 50, step_Avancement = 0\<rparr>,
            \<lparr>step_Etape = Assemblage, step_CompletedMass = 50, step_Avancement = 0\<rparr>,
            \<lparr>step_Etape = Traitement_de_surface, step_CompletedMass = 50, step_Avancement = 0\<rparr>,
            \<lparr>step_Etape = Finalisation, step_CompletedMass = 50, step_Avancement = 0\<rparr>]
   \<and> spec_aggregate_by_step negative_table
     = [\<lparr>step_Etape = Preparation, step_CompletedMass = - 50, step_Avancement = 100\<rparr>,
        \<lparr>step_Etape = Assemblage, step_CompletedMass = 50, step_Avancement = - 100\<rparr>,
        \<lparr>step_Etape = Traitement_de_surface, step_CompletedMass = 50, step_Avancement = - 100\<rparr>,
        \<lparr>step_Etape = Finalisation, step_CompletedMass = 50, step_Avancement = - 100\<rparr>]
   \<and> step_advancement negative_table \<noteq> Inr (spec_aggregate_by_step negative_table)"
proof -
  have code: "step_advancement negative_table
     = Inr [\<lparr>step_Etape = Preparation, step_CompletedMass = - 50, step_Avancement = 0\<rparr>,
            \<lparr>step_Etape = Assemblage, step_CompletedMass = 50, step_Avancement = 0\<rparr>,
            \<lparr>step_Etape = Traitement_de_surface, step_CompletedMass = 50, step_Avancement = 0\<rparr>,
            \<lparr>step_Etape = Finalisation, step_CompletedMass = 50, step_Avancement = 0\<rparr>]"
    using step_names_distinct
    by (simp add: step_advancement_def negative_table_def STEPS_ORDER_def STEP_RANK_eq
        STEP_RANK_get_def sum_TOT_MASS_def Let_def)
  have spec: "spec_aggregate_by_step negative_table
     = [\<lparr>step_Etape = Preparation, step_CompletedMass = - 50, step_Avancement = 100\<rparr>,
        \<lparr>step_Etape = Assemblage, step_CompletedMass = 50, step_Avancement = - 100\<rparr>,
        \<lparr>step_Etape = Traitement_de_surface, step_CompletedMass = 50, step_Avancement = - 100\<rparr>,
        \<lparr>step_Etape = Finalisation, step_CompletedMass = 50, step_Avancement = - 100\<rparr>]"
    by (simp add: spec_aggregate_by_step_def spec_treated_mass_def negative_table_def
        spec_rank_steps)
  have diff: "step_advancement negative_table \<noteq> Inr (spec_aggregate_by_step negative_table)"
    by (simp only: code spec) simp
  from code spec diff show ?thesis by (simp only: simp_thms)
qed

text \<open>
  Claim C1, amended. On every table \<open>step_advancement\<close> raises nothing and returns one
  row per defined step, in the order Preparation, Assemblage, Traitement de surface,
  Finalisation; the treated mass of step S is the sum of the masses of the rows whose step
  rank is at least the rank of S; the percentage is treated mass over total mass times 100
  when the total mass is greater than 0, and 0 otherwise, for a negative total as for a
  total of 0. For the two rows of the scenario (100 kg at Preparation and 100 kg at
  Finalisation, whatever their other fields) the result is 200 kg (100 percent) at
  Preparation and 100 kg (50 percent) at Finalisation.
\<close>

theorem step_advancement_spec:
  "step_advancement df =
     Inr (map (\<lambda>S. \<lparr>step_Etape = S,
                   step_CompletedMass = spec_treated_mass df S,
                   step_Avancement =
                     (if 0 < sum_list (map TOT_MASS df)
                      then spec_treated_mass df S / sum_list (map TOT_MASS df) * 100
                      else 0)\<rparr>)
            [Preparation, Assemblage, Traitement_de_surface, Finalisation])
   \<and> step_advancement
        [\<lparr>PHASE = ''A'', ASSEMBLY_NO = a1, PART_NO = p1, TOT_MASS = 100, Etape = Preparation,
          RowProgress = w1, CompletedMass_Row = c1\<rparr>,
         \<lparr>PHASE = ''A'', ASSEMBLY_NO = a2, PART_NO = p2, TOT_MASS = 100, Etape = Finalisation,
          RowProgress = w2, CompletedMass_Row = c2\<rparr>]
      = Inr [\<lparr>step_Etape = Preparation, step_CompletedMass = 200, step_Avancement = 100\<rparr>,
             \<lparr>step_Etape = Assemblage, step_CompletedMass = 100, step_Avancement = 50\<rparr>,
             \<lparr>step_Etape = Traitement_de_surface, step_CompletedMass = 100, step_Avancement = 50\<rparr>,
             \<lparr>step_Etape = Finalisation, step_CompletedMass = 100, step_Avancement = 50\<rparr>]"
proof (intro conjI)
  show "step_advancement df =
     Inr (map (\<lambda>S. \<lparr>step_Etape = S,
                   step_CompletedMass = spec_treated_mass df S,
                   step_Avancement =
                     (if 0 < sum_list (map TOT_MASS df)
                      then spec_treated_mass df S / sum_list (map TOT_MASS df) * 100
                      else 0)\<rparr>)
            [Preparation, Assemblage, Traitement_de_surface, Finalisation])"
    by (simp add: step_advancement_eq STEPS_ORDER_def sum_TOT_MASS_def)
  show "step_advancement
        [\<lparr>PHASE = ''A'', ASSEMBLY_NO = a1, PART_NO = p1, TOT_MASS = 100, Etape = Preparation,
          RowProgress = w1, CompletedMass_Row = c1\<rparr>,
         \<lparr>PHASE = ''A'', ASSEMBLY_NO = a2, PART_NO = p2, TOT_MASS = 100, Etape = Finalisation,
          RowProgress = w2, CompletedMass_Row = c2\<rparr>]
      = Inr [\<lparr>step_Etape = Preparation, step_CompletedMass = 200, step_Avancement = 100\<rparr>,
             \<lparr>step_Etape = Assemblage, step_CompletedMass = 100, step_Avancement = 50\<rparr>,
             \<lparr>step_Etape = Traitement_de_surface, step_CompletedMass = 100, step_Avancement = 50\<rparr>,
             \<lparr>step_Etape = Finalisation, step_CompletedMass = 100, step_Avancement = 50\<rparr>]"
    using step_names_distinct
    by (simp add: step_advancement_def STEPS_ORDER_def STEP_RANK_eq STEP_RANK_get_def sum_TOT_MASS_def Let_def)
qed

subsection \<open>phase\_advancement\<close>

text \<open>
  Claim C3 as stated, with the percentage equal to treated mass over the phase's total
  mass times 100 unless that total is 0, fails where a phase has a negative total mass. On
  the recomputed table of - 100 kg at Preparation and 50 kg at Finalisation, both of phase
  A, the phase total is - 50 kg and the treated mass 25 kg; the source gives 0 percent,
  the claim's formula - 50 percent.
\<close>

theorem phase_advancement_negative_counterexample:
  "recompute_progress negative_table = negative_table
   \<and> phase_advancement negative_table
       = [\<lparr>phase_PHASE = ''A'', phase_CompletedMass = 25, phase_Avancement = 0\<rparr>]
   \<and> spec_aggregate_by_phase negative_table
       = [\<lparr>phase_PHASE = ''A'', phase_CompletedMass = 25, phase_Avancement = - 50\<rparr>]
   \<and> phase_advancement negative_table \<noteq> spec_aggregate_by_phase negative_table"
proof -
  have rec: "recompute_progress negative_table = negative_table"
    by (simp add: recompute_progress_def recompute_row_def Let_def negative_table_def
        PROGRESS_MAP_eq fillna_def step_names)
  have code: "phase_advancement negative_table
       = [\<lparr>phase_PHASE = ''A'', phase_CompletedMass = 25, phase_Avancement = 0\<rparr>]"
    by (simp add: phase_advancement_def unique_def negative_table_def Let_def sum_TOT_MASS_def
        sum_CompletedMass_Row_def)
  have keys: "sorted_list_of_set (PHASE ` set negative_table) = [''A'']"
    by (simp add: negative_table_def)
  have spec: "spec_aggregate_by_phase negative_table
       = [\<lparr>phase_PHASE = ''A'', phase_CompletedMass = 25, phase_Avancement = - 50\<rparr>]"
    unfolding spec_aggregate_by_phase_def keys
    by (simp add: negative_table_def)
  have diff: "phase_advancement negative_table \<noteq> spec_aggregate_by_phase negative_table"
    by (simp only: code spec) simp
  from rec code spec diff show ?thesis by (simp only: simp_thms)
qed

text \<open>
  Claim C3, amended. For every table, the phases of the rows \<open>phase_advancement\<close> returns
  are exactly the phase values present in the data, each once, in ascending lexicographic
  order; the treated mass of each is the sum of the stored completed masses of the rows of
  that phase (weighted by step, not cumulative by rank); and the percentage is treated
  mass over the phase's total mass times 100 when that total is greater than 0, and 0
  otherwise, for a negative total as for a total of 0.
\<close>

theorem phase_advancement_spec:
  "set (map phase_PHASE (phase_advancement df)) = PHASE ` set df
   \<and> distinct (map phase_PHASE (phase_advancement df))
   \<and> sorted (map phase_PHASE (phase_advancement df))
   \<and> map phase_CompletedMass (phase_advancement df)
       = map (\<lambda>P. sum_list (map CompletedMass_Row (filter (\<lambda>r. PHASE r = P) df)))
           (map phase_PHASE (phase_advancement df))
   \<and> phase_advancement df =
       map (\<lambda>P. \<lparr>phase_PHASE = P,
                 phase_CompletedMass = sum_list (map CompletedMass_Row (filter (\<lambda>r. PHASE r = P) df)),
                 phase_Avancement =
                   (if 0 < sum_list (map TOT_MASS (filter (\<lambda>r. PHASE r = P) df))
                    then sum_list (map CompletedMass_Row (filter (\<lambda>r. PHASE r = P) df))
                         / sum_list (map TOT_MASS (filter (\<lambda>r. PHASE r = P) df)) * 100
                    else 0)\<rparr>)
         (sorted_list_of_set (PHASE ` set df))"
proof (intro conjI)
  have keys: "map phase_PHASE (phase_advancement df) = sorted_list_of_set (PHASE ` set df)"
    by (simp add: phase_advancement_eq comp_def)
  show "set (map phase_PHASE (phase_advancement df)) = PHASE ` set df"
    by (simp only: keys) simp
  show "distinct (map phase_PHASE (phase_advancement df))"
    by (simp only: keys) simp
  show "sorted (map phase_PHASE (phase_advancement df))"
    by (simp only: keys) simp
  show "map phase_CompletedMass (phase_advancement df)
       = map (\<lambda>P. sum_list (map CompletedMass_Row (filter (\<lambda>r. PHASE r = P) df)))
           (map phase_PHASE (phase_advancement df))"
    by (simp only: keys) (simp add: phase_advancement_eq comp_def sum_CompletedMass_Row_def)
  show "phase_advancement df =
       map (\<lambda>P. \<lparr>phase_PHASE = P,
                 phase_CompletedMass = sum_list (map CompletedMass_Row (filter (\<lambda>r. PHASE r = P) df)),
                 phase_Avancement =
                   (if 0 < sum_list (map TOT_MASS (filter (\<lambda>r. PHASE r = P) df))
                    then sum_list (map CompletedMass_Row (filter (\<lambda>r. PHASE r = P) df))
                         / sum_list (map TOT_MASS (filter (\<lambda>r. PHASE r = P) df)) * 100
                    else 0)\<rparr>)
         (sorted_list_of_set (PHASE ` set df))"
    by (simp add: phase_advancement_eq sum_TOT_MASS_def sum_CompletedMass_Row_def)
qed

subsection \<open>assembly\_table\<close>

text \<open>
  Claim C9. For every table, \<open>assembly_table\<close> is the rollup as the specification words
  it: one row per (phase, assembly) pair present (pandas returns them in ascending key
  order), the assembly mass being the sum of the member masses and the assembly step the
  step whose rank is the minimum of the member rows' ranks, the weakest link. The
  aggregation function gives rank \<open>- 1\<close> to an empty group, and rank \<open>- 1\<close> maps to the
  sentinel, which the source spells \<open>None\<close>. An assembly whose two parts are at
  Preparation and Finalisation, in either order, rolls up to Preparation.
\<close>

theorem assembly_table_spec:
  "assembly_table df = spec_rollup_by_assembly df
   \<and> EtapeRank_agg [] = - 1
   \<and> fillna ''None'' (inv_rank (- 1)) = ''None''
   \<and> assembly_table
        [\<lparr>PHASE = p, ASSEMBLY_NO = a, PART_NO = p1, TOT_MASS = m1, Etape = Preparation,
          RowProgress = w1, CompletedMass_Row = c1\<rparr>,
         \<lparr>PHASE = p, ASSEMBLY_NO = a, PART_NO = p2, TOT_MASS = m2, Etape = Finalisation,
          RowProgress = w2, CompletedMass_Row = c2\<rparr>]
       = [\<lparr>asm_PHASE = p, asm_ASSEMBLY_NO = a, AssemblyMass = m1 + m2, EtapeAsm = Preparation\<rparr>]
   \<and> assembly_table
        [\<lparr>PHASE = p, ASSEMBLY_NO = a, PART_NO = p1, TOT_MASS = m1, Etape = Finalisation,
          RowProgress = w1, CompletedMass_Row = c1\<rparr>,
         \<lparr>PHASE = p, ASSEMBLY_NO = a, PART_NO = p2, TOT_MASS = m2, Etape = Preparation,
          RowProgress = w2, CompletedMass_Row = c2\<rparr>]
       = [\<lparr>asm_PHASE = p, asm_ASSEMBLY_NO = a, AssemblyMass = m1 + m2, EtapeAsm = Preparation\<rparr>]"
proof (intro conjI)
  show "assembly_table df = spec_rollup_by_assembly df"
    by (rule assembly_table_eq)
  show "EtapeRank_agg [] = - 1"
    by (simp add: EtapeRank_agg_def)
  show "fillna ''None'' (inv_rank (- 1)) = ''None''"
    by (simp add: inv_rank_eq fillna_def)
  show "assembly_table
        [\<lparr>PHASE = p, ASSEMBLY_NO = a, PART_NO = p1, TOT_MASS = m1, Etape = Preparation,
          RowProgress = w1, CompletedMass_Row = c1\<rparr>,
         \<lparr>PHASE = p, ASSEMBLY_NO = a, PART_NO = p2, TOT_MASS = m2, Etape = Finalisation,
          RowProgress = w2, CompletedMass_Row = c2\<rparr>]
       = [\<lparr>asm_PHASE = p, asm_ASSEMBLY_NO = a, AssemblyMass = m1 + m2, EtapeAsm = Preparation\<rparr>]"
    by (simp add: assembly_table_def group_keys_def unique_def assembly_row_def group_rows_def
        Let_def sum_TOT_MASS_def EtapeRank_agg_def STEP_RANK_get_spec spec_rank_steps
        inv_rank_eq fillna_def)
  show "assembly_table
        [\<lparr>PHASE = p, ASSEMBLY_NO = a, PART_NO = p1, TOT_MASS = m1, Etape = Finalisation,
          RowProgress = w1, CompletedMass_Row = c1\<rparr>,
         \<lparr>PHASE = p, ASSEMBLY_NO = a, PART_NO = p2, TOT_MASS = m2, Etape = Preparation,
          RowProgress = w2, CompletedMass_Row = c2\<rparr>]
       = [\<lparr>asm_PHASE = p, asm_ASSEMBLY_NO = a, AssemblyMass = m1 + m2, EtapeAsm = Preparation\<rparr>]"
    by (simp add: assembly_table_def group_keys_def unique_def assembly_row_def group_rows_def
        Let_def sum_TOT_MASS_def EtapeRank_agg_def STEP_RANK_get_spec spec_rank_steps
        inv_rank_eq fillna_def)
qed

subsection \<open>Rows whose step is not a defined step\<close>

text \<open>
  Claim C10. Let the step string of a row be none of the four defined steps (the sentinel
  \<open>None\<close> and any unrecognised string alike). Then the rank lookup with default gives the
  row rank \<open>- 1\<close>; the first step has rank 0 and every defined step has a strictly larger
  rank than the row; the step aggregation with the row and without it gives the same
  treated mass at every step, so the row contributes to no step's cumulative treated mass;
  and in the assembly rollup of any table that contains the row, its (phase, assembly)
  group is present and has the assembly step \<open>None\<close>.
\<close>

theorem undefined_step_rank:
  assumes "Etape r \<notin> set STEPS_ORDER"
  shows "STEP_RANK_get (Etape r) (- 1) = - 1
    \<and> STEP_RANK (hd STEPS_ORDER) = Some 0
    \<and> list_all (\<lambda>S. STEP_RANK_get (Etape r) (- 1) < STEP_RANK_get S (- 1)) STEPS_ORDER
    \<and> (\<exists>rows rows'. step_advancement (xs @ r # ys) = Inr rows
          \<and> step_advancement (xs @ ys) = Inr rows'
          \<and> map step_CompletedMass rows = map step_CompletedMass rows')
    \<and> (r \<in> set df \<longrightarrow>
          (\<exists>g \<in> set (assembly_table df). asm_PHASE g = PHASE r \<and> asm_ASSEMBLY_NO g = ASSEMBLY_NO r)
        \<and> (\<forall>g \<in> set (assembly_table df).
              asm_PHASE g = PHASE r \<and> asm_ASSEMBLY_NO g = ASSEMBLY_NO r \<longrightarrow> EtapeAsm g = ''None''))"
proof (intro conjI impI)
  show r1: "STEP_RANK_get (Etape r) (- 1) = - 1"
    by (simp add: STEP_RANK_get_spec spec_rank_undefined [OF assms])
  show "STEP_RANK (hd STEPS_ORDER) = Some 0"
    by (simp add: STEPS_ORDER_def STEP_RANK_eq step_names)
  show "list_all (\<lambda>S. STEP_RANK_get (Etape r) (- 1) < STEP_RANK_get S (- 1)) STEPS_ORDER"
    by (simp add: r1) (simp add: STEPS_ORDER_def STEP_RANK_get_spec spec_rank_steps)
  show "\<exists>rows rows'. step_advancement (xs @ r # ys) = Inr rows
          \<and> step_advancement (xs @ ys) = Inr rows'
          \<and> map step_CompletedMass rows = map step_CompletedMass rows'"
    using spec_treated_mass_skip [OF assms]
    by (simp add: step_advancement_eq comp_def)
next
  assume mem: "r \<in> set df"
  have key: "(PHASE r, ASSEMBLY_NO r) \<in> (\<lambda>r. (PHASE r, ASSEMBLY_NO r)) ` set df"
    using mem by (rule imageI)
  have "assembly_row df (PHASE r, ASSEMBLY_NO r) \<in> set (assembly_table df)"
    using key by (simp add: assembly_table_def group_keys_eq)
  moreover have "asm_PHASE (assembly_row df (PHASE r, ASSEMBLY_NO r)) = PHASE r"
    and "asm_ASSEMBLY_NO (assembly_row df (PHASE r, ASSEMBLY_NO r)) = ASSEMBLY_NO r"
    by (simp_all add: assembly_row_def Let_def)
  ultimately show "\<exists>g \<in> set (assembly_table df). asm_PHASE g = PHASE r \<and> asm_ASSEMBLY_NO g = ASSEMBLY_NO r"
    by blast
  show "\<forall>g \<in> set (assembly_table df).
              asm_PHASE g = PHASE r \<and> asm_ASSEMBLY_NO g = ASSEMBLY_NO r \<longrightarrow> EtapeAsm g = ''None''"
  proof (intro ballI impI)
    fix g
    assume g: "g \<in> set (assembly_table df)"
      and same: "asm_PHASE g = PHASE r \<and> asm_ASSEMBLY_NO g = ASSEMBLY_NO r"
    from g obtain k where k: "g = assembly_row df k"
      and kin: "k \<in> (\<lambda>r. (PHASE r, ASSEMBLY_NO r)) ` set df"
      by (auto simp add: assembly_table_def group_keys_eq)
    from same k have keq: "k = (PHASE r, ASSEMBLY_NO r)"
      by (cases k) (simp add: assembly_row_def Let_def)
    have rin: "r \<in> set (spec_members df k)"
      using mem by (simp add: spec_members_def keq)
    show "EtapeAsm g = ''None''"
      using Min_undefined_member [OF rin assms]
      by (simp add: k assembly_row_spec [OF kin] spec_step_of_rank_def)
  qed
qed


theorem undefined_step_rank_witness:
  "Etape (example_table ! 3) \<notin> set STEPS_ORDER
   \<and> example_table ! 3 \<in> set example_table
   \<and> STEP_RANK_get (Etape (example_table ! 3)) (- 1) = - 1
   \<and> (\<exists>rows rows'.
         step_advancement (take 3 example_table @ example_table ! 3 # drop 4 example_table) = Inr rows
       \<and> step_advancement (take 3 example_table @ drop 4 example_table) = Inr rows'
       \<and> map step_CompletedMass rows = map step_CompletedMass rows')
   \<and> (\<exists>g \<in> set (assembly_table example_table).
         asm_PHASE g = ''B'' \<and> asm_ASSEMBLY_NO g = ''B-01'' \<and> EtapeAsm g = ''None'')"
proof -
  have h: "Etape (example_table ! 3) \<notin> set STEPS_ORDER"
    by (simp add: example_table_def STEPS_ORDER_def step_names)
  have m: "example_table ! 3 \<in> set example_table"
    by (simp add: example_table_def)
  have p: "PHASE (example_table ! 3) = ''B''" "ASSEMBLY_NO (example_table ! 3) = ''B-01''"
    by (simp_all add: example_table_def)
  note w = undefined_step_rank [OF h, of "take 3 example_table" "drop 4 example_table" example_table]
  from w m have "\<exists>g \<in> set (assembly_table example_table).
         asm_PHASE g = ''B'' \<and> asm_ASSEMBLY_NO g = ''B-01'' \<and> EtapeAsm g = ''None''"
    unfolding p by blast
  with w h m show ?thesis by blast
qed

subsection \<open>ensure\_columns\<close>



text \<open>
  Claim C8 as stated, that the argument table is unchanged after a successful call and the
  result is a copy, fails: on the sample sheet, which has every required column and no
  step column, the call returns the reference of its argument and the table behind that
  reference has gained the step column.
\<close>

theorem ensure_columns_copy_counterexample:
  "list_all (has_column (sample_store 0)) required
   \<and> fst (ensure_columns (\<lambda>_. ''nan'') (\<lambda>_. None) 0 sample_store) = Inr 0
   \<and> \<not> has_column (sample_store 0) ''Etape''
   \<and> has_column (snd (ensure_columns (\<lambda>_. ''nan'') (\<lambda>_. None) 0 sample_store) 0) ''Etape''
   \<and> snd (ensure_columns (\<lambda>_. ''nan'') (\<lambda>_. None) 0 sample_store) 0 \<noteq> sample_store 0"
proof -
  have run: "ensure_columns_frame (\<lambda>_. ''nan'') (\<lambda>_. None) raw_sheet
      = (None, frame_after (\<lambda>_. ''nan'') (\<lambda>_. None) raw_sheet)"
    by (rule ensure_columns_frame_ok(1) [OF raw_sheet_required raw_sheet_columns(1,2)])
  have after: "has_column (frame_after (\<lambda>_. ''nan'') (\<lambda>_. None) raw_sheet) ''Etape''"
    using ensure_columns_frame_ok(5) [OF raw_sheet_required raw_sheet_columns(1,2),
        of "\<lambda>_. ''nan''" "\<lambda>_. None"]
    by (simp add: has_column_getitem)
  have a: "list_all (has_column (sample_store 0)) required"
    using raw_sheet_required by (simp add: sample_store_0 list_all_iff)
  have b: "fst (ensure_columns (\<lambda>_. ''nan'') (\<lambda>_. None) 0 sample_store) = Inr 0"
    by (simp add: ensure_columns_def sample_store_0 run)
  have c: "\<not> has_column (sample_store 0) ''Etape''"
    by (simp add: sample_store_0 raw_sheet_columns)
  have d: "has_column (snd (ensure_columns (\<lambda>_. ''nan'') (\<lambda>_. None) 0 sample_store) 0) ''Etape''"
    using after by (simp add: ensure_columns_def sample_store_0 run)
  from c d have e: "snd (ensure_columns (\<lambda>_. ''nan'') (\<lambda>_. None) 0 sample_store) 0 \<noteq> sample_store 0"
    by auto
  from a b c d e show ?thesis by (simp only: simp_thms)
qed

text \<open>
  Claim C8, amended. For every store and every argument table with all required columns
  present, \<open>ensure_columns\<close> validates in place and returns its argument, not a copy:
  after the call the argument table itself holds the validated data (the PHASE cells are
  strings, the mass cells are numbers, the three application columns are present). The
  call has no other effect: every other table of the store, the number of rows of the
  argument table and each of its columns other than PHASE, TOT MASS (Kg), Etape,
  RowProgress\% and CompletedMass\_Row are as before.
\<close>

theorem ensure_columns_in_place:
  assumes "\<forall>c\<in>set required. has_column (\<sigma> df) c"
  shows "\<exists>\<sigma>'. ensure_columns py_str parse df \<sigma> = (Inr df, \<sigma>')
        \<and> (\<forall>r. r \<noteq> df \<longrightarrow> \<sigma>' r = \<sigma> r)
        \<and> index_len (\<sigma>' df) = index_len (\<sigma> df)
        \<and> (\<forall>c. c \<notin> {''PHASE'', ''TOT MASS (Kg)'', ''Etape'', ''RowProgress%'', ''CompletedMass_Row''}
              \<longrightarrow> getitem (\<sigma>' df) c = getitem (\<sigma> df) c)
        \<and> (\<exists>phase. getitem (\<sigma>' df) ''PHASE'' = Some phase \<and> list_all (\<lambda>c. \<exists>s. c = CStr s) phase)
        \<and> (\<exists>mass. getitem (\<sigma>' df) ''TOT MASS (Kg)'' = Some mass \<and> list_all (\<lambda>c. \<exists>x. c = CNum x) mass)
        \<and> has_column (\<sigma>' df) ''Etape''
        \<and> has_column (\<sigma>' df) ''RowProgress%''
        \<and> has_column (\<sigma>' df) ''CompletedMass_Row''"
proof -
  from assms obtain phase mass where
    ph: "getitem (\<sigma> df) ''PHASE'' = Some phase"
    and ms: "getitem (\<sigma> df) ''TOT MASS (Kg)'' = Some mass"
    by (rule required_columns_obtain)
  define df' where "df' = frame_after py_str parse (\<sigma> df)"
  note ok = ensure_columns_frame_ok [OF assms ph ms, where py_str = py_str and parse = parse,
      folded df'_def]
  have run: "ensure_columns py_str parse df \<sigma> = (Inr df, \<sigma>(df := df'))"
    by (simp add: ensure_columns_def ok(1))
  have 1: "\<forall>r. r \<noteq> df \<longrightarrow> (\<sigma>(df := df')) r = \<sigma> r"
    by simp
  have 2: "index_len ((\<sigma>(df := df')) df) = index_len (\<sigma> df)"
    by (simp add: ok(2))
  have 3: "\<forall>c. c \<notin> {''PHASE'', ''TOT MASS (Kg)'', ''Etape'', ''RowProgress%'', ''CompletedMass_Row''}
              \<longrightarrow> getitem ((\<sigma>(df := df')) df) c = getitem (\<sigma> df) c"
    using ok(8) by (simp only: fun_upd_same) blast
  have 4: "\<exists>phase. getitem ((\<sigma>(df := df')) df) ''PHASE'' = Some phase
             \<and> list_all (\<lambda>c. \<exists>s. c = CStr s) phase"
    using map_astype_str_all [of py_str phase] by (simp add: ok(3))
  have 5: "\<exists>mass. getitem ((\<sigma>(df := df')) df) ''TOT MASS (Kg)'' = Some mass
             \<and> list_all (\<lambda>c. \<exists>x. c = CNum x) mass"
    using map_to_numeric_all [of parse mass] by (simp add: ok(4))
  have 6: "has_column ((\<sigma>(df := df')) df) ''Etape''"
    by (simp add: has_column_getitem [of df'] ok(5)) (simp add: has_column_getitem)
  have 7: "has_column ((\<sigma>(df := df')) df) ''RowProgress%''"
    by (simp add: has_column_getitem [of df'] ok(6)) (simp add: has_column_getitem)
  have 8: "has_column ((\<sigma>(df := df')) df) ''CompletedMass_Row''"
    by (simp add: has_column_getitem [of df'] ok(7)) (simp add: has_column_getitem)
  from run 1 2 3 4 5 6 7 8 show ?thesis
    by (intro exI [of _ "\<sigma>(df := df')"] conjI)
qed

theorem ensure_columns_in_place_witness:
  "list_all (has_column (sample_store 0)) required
   \<and> ensure_columns (\<lambda>_. ''nan'') (\<lambda>_. None) 0 sample_store
       = (Inr 0, snd (ensure_columns (\<lambda>_. ''nan'') (\<lambda>_. None) 0 sample_store))
   \<and> snd (ensure_columns (\<lambda>_. ''nan'') (\<lambda>_. None) 0 sample_store) 1 = sample_store 1
   \<and> getitem (snd (ensure_columns (\<lambda>_. ''nan'') (\<lambda>_. None) 0 sample_store) 0) ''REMARKS''
       = Some [CNull, CStr ''ok'', CNull]
   \<and> has_column (snd (ensure_columns (\<lambda>_. ''nan'') (\<lambda>_. None) 0 sample_store) 0) ''CompletedMass_Row''"
proof -
  have h: "\<forall>c\<in>set required. has_column (sample_store 0) c"
    using raw_sheet_required by (simp add: sample_store_0)
  from ensure_columns_in_place [where \<sigma> = sample_store and df = 0
      and py_str = "\<lambda>_. ''nan''" and parse = "\<lambda>_. None", OF h] obtain \<sigma>' where
    run: "ensure_columns (\<lambda>_. ''nan'') (\<lambda>_. None) 0 sample_store = (Inr 0, \<sigma>')"
    and other: "\<forall>r. r \<noteq> 0 \<longrightarrow> \<sigma>' r = sample_store r"
    and cols: "\<forall>c. c \<notin> {''PHASE'', ''TOT MASS (Kg)'', ''Etape'', ''RowProgress%'', ''CompletedMass_Row''}
              \<longrightarrow> getitem (\<sigma>' 0) c = getitem (sample_store 0) c"
    and app: "has_column (\<sigma>' 0) ''CompletedMass_Row''"
    by (elim exE conjE)
  have a: "list_all (has_column (sample_store 0)) required"
    using h by (simp add: list_all_iff)
  have r: "getitem (sample_store 0) ''REMARKS'' = Some [CNull, CStr ''ok'', CNull]"
    by (simp add: sample_store_0 getitem_def raw_sheet_def)
  have c: "getitem (\<sigma>' 0) ''REMARKS'' = Some [CNull, CStr ''ok'', CNull]"
    using cols [rule_format, of "''REMARKS''"] r by simp
  have o: "\<sigma>' 1 = sample_store 1"
    using other [rule_format, of 1] by simp
  from a c o app show ?thesis by (simp add: run)
qed

end
